theory Spec2Isabelle
  imports Main "HOL-Library.Sublist"
begin

section \<open>Data model (src/types.ts)\<close>

text \<open>
  A JavaScript string is modelled as a HOL \<open>string\<close>; one list element stands for one
  UTF-16 code unit, so \<open>length\<close> is the \<open>.length\<close> of the source and \<open>take\<close> cuts where
  \<open>substring\<close> cuts. A value that may be \<open>null\<close> or \<open>undefined\<close> is an \<open>option\<close>.

  \<open>FlashcardData\<close> is the interface of src/types.ts (it extends \<open>FlashcardStyleData\<close>);
  the field \<open>id\<close> is named \<open>id_card\<close> because \<open>id\<close> is the identity function of HOL.
\<close>

record FlashcardData =
  id_card :: string
  title :: string
  content :: string
  category :: string
  mood :: string
  icon :: string

text \<open>
  The value that \<open>generateFlashcard\<close> resolves with is declared
  \<open>Omit<FlashcardData, 'id'>\<close>, but it is whatever \<open>JSON.parse\<close> returned: each of the five
  fields may be absent. The fields carry the suffix \<open>_r\<close> (response).
\<close>

record newCardData =
  title_r :: "string option"
  content_r :: "string option"
  category_r :: "string option"
  mood_r :: "string option"
  icon_r :: "string option"

text \<open>JavaScript truthiness of a possibly absent string: absent and \<open>""\<close> are falsy.\<close>

definition truthy :: "string option \<Rightarrow> bool" where
  "truthy v = (case v of None \<Rightarrow> False | Some str \<Rightarrow> str \<noteq> [])"

section \<open>The generator client (src/services/geminiService.ts)\<close>

text \<open>
  \<open>String.prototype.substring(start, end)\<close> on non-negative integer arguments: both
  are clamped to the length, swapped when \<open>start > end\<close>, and the code units in between
  are returned.
\<close>

definition substring :: "nat \<Rightarrow> nat \<Rightarrow> 'a list \<Rightarrow> 'a list" where
  "substring start fin str =
     (let a = min start (length str); b = min fin (length str)
      in take (max a b - min a b) (drop (min a b) str))"

text \<open>\<open>Array.prototype.join(sep)\<close> on an array of strings.\<close>

fun join :: "string \<Rightarrow> string list \<Rightarrow> string" where
  "join sep [] = []"
| "join sep [x] = x"
| "join sep (x # y # ys) = x @ sep @ join sep (y # ys)"

text \<open>
  The prompt of \<open>generateFlashcard\<close> is a fixed template literal with two interpolated
  expressions; the model keeps the values of the two, in the order of the template:
  \<^item> \<open>existingTitles.length > 0 ? `- ${existingTitles.join('\n- ')}` : 'N/A'\<close>
  \<^item> \<open>bookContent.substring(0, 32000)\<close> (the template writes \<open>...\<close> after it).
\<close>

record prompt =
  topicsText :: string
  excerpt :: string

definition buildPrompt :: "string \<Rightarrow> string list \<Rightarrow> prompt" where
  "buildPrompt bookContent existingTitles =
     \<lparr> topicsText =
         (if length existingTitles > 0
          then ''- '' @ join [CHR 0x0A, CHR ''-'', CHR '' ''] existingTitles
          else ''N/A''),
       excerpt = substring 0 32000 bookContent \<rparr>"

text \<open>
  What can happen inside the \<open>try\<close> block of \<open>generateFlashcard\<close> once the prompt is built;
  the service and \<open>JSON.parse\<close> are outside the repository, so the case is chosen by the
  environment:
  \<^item> \<open>KeyMissing\<close>: \<open>getAiInstance\<close> throws, the API key is not configured;
  \<^item> \<open>Thrown msg\<close>: another \<open>Error\<close> with message \<open>msg\<close> is thrown (transport failure,
    \<open>response.text\<close> undefined, ...);
  \<^item> \<open>ThrownOther\<close>: a value that is not an \<open>Error\<close> is thrown;
  \<^item> \<open>InvalidJson\<close>: \<open>JSON.parse\<close> throws a \<open>SyntaxError\<close>;
  \<^item> \<open>Parsed v\<close>: \<open>JSON.parse\<close> returns \<open>v\<close> (\<open>None\<close> is \<open>null\<close>).
\<close>

datatype service_outcome =
    KeyMissing
  | Thrown string
  | ThrownOther
  | InvalidJson
  | Parsed "newCardData option"

text \<open>
  How the promise of \<open>generateFlashcard\<close> settles: \<open>Inl msg\<close> is a rejection with
  \<open>new Error(msg)\<close> (the \<open>catch\<close> block always throws an \<open>Error\<close>), \<open>Inr v\<close> the value
  returned by \<open>JSON.parse\<close>.
\<close>

definition settled :: "service_outcome \<Rightarrow> string + newCardData option" where
  "settled outcome =
     (case outcome of
        KeyMissing \<Rightarrow> Inl ''Could not connect to the AI service. The API key is missing or invalid. Please ensure it's configured correctly in the environment.''
      | InvalidJson \<Rightarrow> Inl ''The AI returned an invalid response. Please try again.''
      | Thrown msg \<Rightarrow> Inl msg
      | ThrownOther \<Rightarrow> Inl ''An unknown error occurred while generating the flashcard.''
      | Parsed v \<Rightarrow> Inr v)"

text \<open>
  \<open>generateFlashcard(bookContent, existingTitles)\<close>: the prompt is built first, then
  \<open>getAiInstance\<close> is called, then the prompt is handed to \<open>generateContent\<close>. The result
  is the prompt handed over (none when the key is missing) and the settled promise.
\<close>

definition generateFlashcard ::
    "string \<Rightarrow> string list \<Rightarrow> service_outcome \<Rightarrow> prompt option \<times> (string + newCardData option)" where
  "generateFlashcard bookContent existingTitles outcome =
     (let p = buildPrompt bookContent existingTitles
      in (if outcome = KeyMissing then None else Some p, settled outcome))"

section \<open>The deck state machine (src/App.tsx and the FlashcardDeck component)\<close>

text \<open>
  One invocation of \<open>generateFlashcard(bookContent, existingTitles)\<close>, by its arguments.
\<close>

record gen_call =
  bookContent_arg :: string
  existingTitles_arg :: "string list"

text \<open>
  The React state of \<open>App\<close> (\<open>bookContent\<close>, \<open>flashcards\<close>, \<open>isLoading\<close>, \<open>error\<close>) and of
  \<open>FlashcardDeck\<close> (\<open>currentIndex\<close>), with the two things of the environment the claims
  speak about: \<open>inFlight\<close>, the invocations of \<open>generateFlashcard\<close> whose promise has not
  settled yet (oldest first), and \<open>generatorCalls\<close>, every invocation made so far (oldest
  first). A handler reads the state of the latest render: React commits the updates of a
  handler before it dispatches the next event or effect.
\<close>

record app_state =
  bookContent :: "string option"
  flashcards :: "FlashcardData list"
  isLoading :: bool
  error :: "string option"
  currentIndex :: nat
  inFlight :: "gen_call list"
  generatorCalls :: "gen_call list"

text \<open>
  Modelled from the spec: the hook \<open>useLocalStorage\<close> (hooks/useLocalStorage) is not among
  the sources. The spec says that the document text and the card list are persisted
  under two keys of a key-value store, so its setter is taken to behave as the setter of
  \<open>useState\<close> does: called with a function (\<open>setFlashcards(prev => ...)\<close>), it applies the
  function to the stored list; called with a value, it stores the value.
\<close>

definition setFlashcards :: "(FlashcardData list \<Rightarrow> FlashcardData list) \<Rightarrow> app_state \<Rightarrow> app_state" where
  [simp]: "setFlashcards update s = s\<lparr> flashcards := update (flashcards s) \<rparr>"

text \<open>
  \<open>handleNewCardRequest\<close> up to its \<open>await\<close>: the guard, \<open>setIsLoading(true)\<close>,
  \<open>setError(null)\<close>, and the call of \<open>generateFlashcard\<close> with the titles of the cards.
\<close>

definition handleNewCardRequest :: "app_state \<Rightarrow> app_state" where
  "handleNewCardRequest s =
     (case bookContent s of
        None \<Rightarrow> s
      | Some book \<Rightarrow>
          if book = [] then s
          else if isLoading s then s
          else
            (let existingTitles = map title (flashcards s);
                 call = \<lparr> bookContent_arg = book, existingTitles_arg = existingTitles \<rparr>
             in s\<lparr> isLoading := True, error := None,
                   inFlight := inFlight s @ [call],
                   generatorCalls := generatorCalls s @ [call] \<rparr>))"

text \<open>The test of line 24 of App.tsx: the value and its five fields are truthy.\<close>

definition isComplete :: "newCardData option \<Rightarrow> bool" where
  "isComplete v =
     (case v of
        None \<Rightarrow> False
      | Some d \<Rightarrow> truthy (title_r d) \<and> truthy (content_r d) \<and> truthy (category_r d)
                  \<and> truthy (mood_r d) \<and> truthy (icon_r d))"

text \<open>
  \<open>{ id: crypto.randomUUID(), ...newCardData }\<close>, built only when
  \<open>isComplete\<close> holds; the UUID is supplied by the environment.
\<close>

definition newFlashcard :: "string \<Rightarrow> newCardData \<Rightarrow> FlashcardData" where
  "newFlashcard uuid d =
     \<lparr> id_card = uuid, title = the (title_r d), content = the (content_r d),
       category = the (category_r d), mood = the (mood_r d), icon = the (icon_r d) \<rparr>"

text \<open>
  \<open>handleNewCardRequest\<close> from the \<open>await\<close> on, when the promise of the oldest invocation
  in flight settles: append the card or set the error, and \<open>setIsLoading(false)\<close> in the
  \<open>finally\<close> block. With nothing in flight there is nothing to resume.
\<close>

definition handleNewCardRequest_resume :: "service_outcome \<Rightarrow> string \<Rightarrow> app_state \<Rightarrow> app_state" where
  "handleNewCardRequest_resume outcome uuid s =
     (case inFlight s of
        [] \<Rightarrow> s
      | call # rest \<Rightarrow>
          (case snd (generateFlashcard (bookContent_arg call) (existingTitles_arg call) outcome) of
             Inr v \<Rightarrow>
               if isComplete v
               then (setFlashcards (\<lambda>prev. prev @ [newFlashcard uuid (the v)]) s)
                      \<lparr> isLoading := False, inFlight := rest \<rparr>
               else s\<lparr> error := Some ''AI failed to generate a complete flashcard. Please try again.'',
                        isLoading := False, inFlight := rest \<rparr>
           | Inl msg \<Rightarrow> s\<lparr> error := Some msg, isLoading := False, inFlight := rest \<rparr>))"

text \<open>\<open>handleFileUpload\<close> of App.tsx.\<close>

definition handleFileUpload :: "string \<Rightarrow> app_state \<Rightarrow> app_state" where
  "handleFileUpload text_content s =
     s\<lparr> bookContent := Some text_content, flashcards := [], error := None \<rparr>"

text \<open>
  \<open>handleReset\<close> of App.tsx; the argument is the answer of \<open>window.confirm\<close>. With
  \<open>bookContent\<close> null, \<open>App\<close> unmounts \<open>FlashcardDeck\<close>, whose \<open>currentIndex\<close> starts at 0
  again when it is next mounted.
\<close>

definition handleReset :: "bool \<Rightarrow> app_state \<Rightarrow> app_state" where
  "handleReset confirmed s =
     (if confirmed
      then s\<lparr> bookContent := None, flashcards := [], error := None, currentIndex := 0 \<rparr>
      else s)"

text \<open>\<open>handleSwipe\<close> of FlashcardDeck: \<open>setCurrentIndex(prev => prev + 1)\<close>.\<close>

definition handleSwipe :: "app_state \<Rightarrow> app_state" where
  "handleSwipe s = s\<lparr> currentIndex := currentIndex s + 1 \<rparr>"

text \<open>
  The two effects. \<open>app_effect\<close> is the \<open>useEffect\<close> of App.tsx (lines 41 to 46);
  \<open>deck_effect\<close> is the one of FlashcardDeck, which is mounted only while \<open>bookContent\<close>
  is truthy and whose \<open>onGenerateNew\<close> is \<open>handleNewCardRequest\<close>. React runs an effect
  after a render in which one of its dependencies changed; the condition of each effect
  reads nothing but its dependencies, and a call it makes changes \<open>isLoading\<close>, so running
  both after every handler makes the same calls. The two conditions exclude each other
  (no cards, some cards), so the order of the two does not matter.
\<close>

definition app_effect :: "app_state \<Rightarrow> app_state" where
  "app_effect s =
     (if truthy (bookContent s) \<and> length (flashcards s) = 0 \<and> \<not> isLoading s
      then handleNewCardRequest s else s)"

definition deck_effect :: "app_state \<Rightarrow> app_state" where
  "deck_effect s =
     (if truthy (bookContent s) \<and> currentIndex s \<ge> length (flashcards s) \<and> \<not> isLoading s
         \<and> length (flashcards s) > 0
      then handleNewCardRequest s else s)"

definition effects :: "app_state \<Rightarrow> app_state" where
  "effects s = app_effect (deck_effect s)"

text \<open>
  What can happen to the mounted application: a click on a button wired to
  \<open>onGenerateNew\<close> (Generate More, Try Again), the end of a swipe, a click on Reset with
  the answer to the confirmation, an upload that has been parsed to text, and the settling
  of the oldest promise in flight with a UUID for the card it may create.
\<close>

datatype event =
    ClickGenerate
  | Swipe
  | ClickReset bool
  | Upload string
  | Settle service_outcome string

fun handler :: "event \<Rightarrow> app_state \<Rightarrow> app_state" where
  "handler ClickGenerate s = handleNewCardRequest s"
| "handler Swipe s = handleSwipe s"
| "handler (ClickReset confirmed) s = handleReset confirmed s"
| "handler (Upload text_content) s = handleFileUpload text_content s"
| "handler (Settle outcome uuid) s = handleNewCardRequest_resume outcome uuid s"

definition step :: "event \<Rightarrow> app_state \<Rightarrow> app_state" where
  "step e s = effects (handler e s)"

fun run :: "event list \<Rightarrow> app_state \<Rightarrow> app_state" where
  "run [] s = s"
| "run (e # es) s = run es (step e s)"

text \<open>
  The application as it is mounted: the book and the cards come from the store, nothing
  is loading, and the effects run once.
\<close>

definition mount :: "string option \<Rightarrow> FlashcardData list \<Rightarrow> app_state" where
  "mount book cards =
     effects \<lparr> bookContent = book, flashcards = cards, isLoading = False, error = None,
               currentIndex = 0, inFlight = [], generatorCalls = [] \<rparr>"




text \<open>The events of one document session: no upload and no confirmed reset.\<close>

fun in_session :: "event \<Rightarrow> bool" where
  "in_session (ClickReset confirmed) = (\<not> confirmed)"
| "in_session (Upload text_content) = False"
| "in_session e = True"

section \<open>Card styles (src/utils/styleUtils.ts)\<close>

record CardDynamicStyle =
  background :: string
  badgeColor :: string

text \<open>The own properties of the object literal \<open>moodStyles\<close>, in the order of the source.\<close>

definition moodStyles :: "(string \<times> CardDynamicStyle) list" where
  "moodStyles =
     [ (''energetic'', \<lparr> background = ''bg-gradient-to-br from-amber-500 to-orange-600'',
                        badgeColor = ''bg-amber-400/20 text-amber-200'' \<rparr>),
       (''calm'', \<lparr> background = ''bg-gradient-to-br from-teal-500 to-cyan-600'',
                   badgeColor = ''bg-cyan-400/20 text-cyan-200'' \<rparr>),
       (''serious'', \<lparr> background = ''bg-gradient-to-br from-slate-700 to-slate-800'',
                      badgeColor = ''bg-slate-400/20 text-slate-200'' \<rparr>),
       (''inspirational'', \<lparr> background = ''bg-gradient-to-br from-purple-500 to-indigo-600'',
                            badgeColor = ''bg-purple-400/20 text-purple-200'' \<rparr>),
       (''technical'', \<lparr> background = ''bg-gradient-to-br from-sky-600 to-blue-700'',
                        badgeColor = ''bg-sky-400/20 text-sky-200'' \<rparr>),
       (''creative'', \<lparr> background = ''bg-gradient-to-br from-pink-500 to-rose-600'',
                       badgeColor = ''bg-pink-400/20 text-pink-200'' \<rparr>) ]"

text \<open>
  \<open>moodStyles\<close> is an object literal, so its prototype is \<open>Object.prototype\<close> and a
  property read \<open>moodStyles[mood]\<close> that finds no own property goes on to the properties
  every object inherits. These are the names \<open>Object.prototype\<close> defines (ECMAScript,
  with its Annex B accessors); each one reads as a function or an object, which is truthy.
\<close>

definition objectPrototype :: "string list" where
  "objectPrototype =
     [ ''constructor'', ''hasOwnProperty'', ''isPrototypeOf'', ''propertyIsEnumerable'',
       ''toLocaleString'', ''toString'', ''valueOf'', ''__proto__'',
       ''__defineGetter__'', ''__defineSetter__'', ''__lookupGetter__'', ''__lookupSetter__'' ]"

text \<open>
  The value of a property read on \<open>moodStyles\<close>: a style entry, a member inherited from
  \<open>Object.prototype\<close> (by its name), or \<open>undefined\<close>.
\<close>

datatype property_read =
    Style CardDynamicStyle
  | Inherited string
  | Undefined

definition moodStyles_at :: "string \<Rightarrow> property_read" where
  "moodStyles_at key =
     (case map_of moodStyles key of
        Some entry \<Rightarrow> Style entry
      | None \<Rightarrow> if key \<in> set objectPrototype then Inherited key else Undefined)"

fun truthy_read :: "property_read \<Rightarrow> bool" where
  "truthy_read Undefined = False"
| "truthy_read r = True"

text \<open>\<open>const defaultStyle = moodStyles.serious\<close>.\<close>

definition defaultStyle :: property_read where
  "defaultStyle = moodStyles_at ''serious''"

text \<open>\<open>getDynamicCardStyles(mood?: string)\<close>; \<open>None\<close> is \<open>undefined\<close>.\<close>

definition getDynamicCardStyles :: "string option \<Rightarrow> property_read" where
  "getDynamicCardStyles mood_opt =
     (case mood_opt of
        None \<Rightarrow> defaultStyle
      | Some m \<Rightarrow> if m \<noteq> [] \<and> truthy_read (moodStyles_at m) then moodStyles_at m else defaultStyle)"

section \<open>The upload boundary (parseFile of the FileUploadScreen component)\<close>

text \<open>\<open>String.prototype.split(sep)\<close> with a separator of one character.\<close>

fun split :: "char \<Rightarrow> string \<Rightarrow> string list" where
  "split sep [] = [[]]"
| "split sep (c # cs) =
     (if c = sep then [] # split sep cs
      else (case split sep cs of
              [] \<Rightarrow> [[c]]
            | w # ws \<Rightarrow> (c # w) # ws))"

text \<open>
  \<open>toLowerCase\<close> on the letters that decide the dispatch: A to Z go to a to z, every
  other character is kept.
\<close>

definition toLowerCase_char :: "char \<Rightarrow> char" where
  "toLowerCase_char c =
     (case map_of (zip ''ABCDEFGHIJKLMNOPQRSTUVWXYZ'' ''abcdefghijklmnopqrstuvwxyz'') c of
        Some l \<Rightarrow> l
      | None \<Rightarrow> c)"

definition toLowerCase :: "string \<Rightarrow> string" where
  "toLowerCase str = map toLowerCase_char str"

text \<open>
  \<open>file.name.split('.').pop()?.toLowerCase()\<close>: \<open>split\<close> never returns an empty array,
  so \<open>pop\<close> returns its last element and the optional chaining never yields \<open>undefined\<close>.
\<close>

definition fileType :: "string \<Rightarrow> string" where
  "fileType name = toLowerCase (last (split CHR ''.'' name))"

text \<open>
  The branch of the \<open>switch\<close> that \<open>parseFile\<close> takes: the parser it hands the file to, or
  the \<open>Error\<close> it throws before reading anything (\<open>Inl\<close> of the message). The first
  argument says whether the global \<open>pdfjsLib\<close> is defined. The two copies of \<open>parseFile\<close>
  among the sources have the same \<open>switch\<close>.
\<close>

datatype parser = FileText | PdfJs | Mammoth | Marked

definition parseFile :: "bool \<Rightarrow> string \<Rightarrow> string + parser" where
  "parseFile pdfjsLib_defined name =
     (let ft = fileType name in
      if ft = ''txt'' then Inr FileText
      else if ft = ''pdf'' then
        (if pdfjsLib_defined then Inr PdfJs else Inl ''PDF parsing library is not loaded.'')
      else if ft = ''docx'' then Inr Mammoth
      else if ft = ''md'' then Inr Marked
      else Inl (''Unsupported file type: .'' @ ft))"

section \<open>The guard invariant and example data\<close>


text \<open>
  The six moods that the prompt and the description of the response schema name
  (geminiService.ts); they are the keys of \<open>moodStyles\<close>.
\<close>

definition moodEnumeration :: "string list" where
  "moodEnumeration =
     [''energetic'', ''calm'', ''serious'', ''inspirational'', ''technical'', ''creative'']"

text \<open>
  Example data for the concrete instances below: a session on the document \<open>Doc A\<close> in
  which nothing has been requested yet, and three responses of the generator.
\<close>

definition docA_idle :: app_state where
  "docA_idle =
     \<lparr> bookContent = Some ''Doc A'', flashcards = [], isLoading = False, error = None,
       currentIndex = 0, inFlight = [], generatorCalls = [] \<rparr>"

definition response_T1 :: newCardData where
  "response_T1 =
     \<lparr> title_r = Some ''T1'', content_r = Some ''First concept.'', category_r = Some ''Science'',
       mood_r = Some ''calm'', icon_r = Some ''*'' \<rparr>"

definition response_playful :: newCardData where
  "response_playful =
     \<lparr> title_r = Some ''T2'', content_r = Some ''Second concept.'', category_r = Some ''History'',
       mood_r = Some ''playful'', icon_r = Some ''+'' \<rparr>"

definition response_no_icon :: newCardData where
  "response_no_icon =
     \<lparr> title_r = Some ''T3'', content_r = Some ''Third concept.'', category_r = Some ''History'',
       mood_r = Some ''calm'', icon_r = None \<rparr>"

definition card_T1 :: "string \<Rightarrow> FlashcardData" where
  "card_T1 uuid =
     \<lparr> id_card = uuid, title = ''T1'', content = ''First concept.'', category = ''Science'',
       mood = ''calm'', icon = ''*'' \<rparr>"

definition card_playful :: "string \<Rightarrow> FlashcardData" where
  "card_playful uuid =
     \<lparr> id_card = uuid, title = ''T2'', content = ''Second concept.'', category = ''History'',
       mood = ''playful'', icon = ''+'' \<rparr>"

definition call_docA :: "string list \<Rightarrow> gen_call" where
  "call_docA titles = \<lparr> bookContent_arg = ''Doc A'', existingTitles_arg = titles \<rparr>"

section \<open>Properties\<close>

subsection \<open>The generator client\<close>

lemma substring_0: "substring 0 n str = take n str"
  by (simp add: substring_def Let_def min_def)

lemma snd_generateFlashcard [simp]:
  "snd (generateFlashcard book titles outcome) = settled outcome"
  by (simp add: generateFlashcard_def Let_def)

text \<open>
  Claim C8. The document text sent to the generator is bounded: for every document text
  \<open>d\<close> the prompt handed to the service is the one built from \<open>d\<close>, and the excerpt
  placed into it is a prefix of \<open>d\<close> of at most 32000 characters; it is \<open>d\<close> itself
  whenever \<open>d\<close> has at most 32000 characters (otherwise it has exactly 32000).
\<close>

theorem excerpt_bounded_prefix:
  "fst (generateFlashcard d ts outcome)
     = (if outcome = KeyMissing then None else Some (buildPrompt d ts))
   \<and> prefix (excerpt (buildPrompt d ts)) d
   \<and> length (excerpt (buildPrompt d ts)) \<le> 32000
   \<and> (if length d \<le> 32000 then excerpt (buildPrompt d ts) = d
      else length (excerpt (buildPrompt d ts)) = 32000)"
  by (simp add: generateFlashcard_def buildPrompt_def substring_0 take_is_prefix)

theorem excerpt_bounded_prefix_witness:
  "map_option excerpt (fst (generateFlashcard ''Doc A'' [''T1''] InvalidJson)) = Some ''Doc A''
   \<and> map_option (\<lambda>p. length (excerpt p))
        (fst (generateFlashcard (replicate 32005 CHR ''a'') [] (Thrown ''Failed to fetch'')))
      = Some 32000"
  using excerpt_bounded_prefix [of "''Doc A''" "[''T1'']" InvalidJson]
    excerpt_bounded_prefix [of "replicate 32005 CHR ''a''" "[]" "Thrown ''Failed to fetch''"]
  by simp

subsection \<open>One request: issue and settle\<close>

lemma handleSwipe_funpow: "(handleSwipe ^^ k) s = s\<lparr> currentIndex := currentIndex s + k \<rparr>"
  by (induction k arbitrary: s) (simp_all add: handleSwipe_def funpow_swap1)

lemma request_issued:
  "bookContent s = Some book \<Longrightarrow> book \<noteq> [] \<Longrightarrow> \<not> isLoading s \<Longrightarrow>
   handleNewCardRequest s =
     s\<lparr> isLoading := True, error := None,
        inFlight := inFlight s @ [\<lparr> bookContent_arg = book, existingTitles_arg = map title (flashcards s) \<rparr>],
        generatorCalls := generatorCalls s @ [\<lparr> bookContent_arg = book, existingTitles_arg = map title (flashcards s) \<rparr>] \<rparr>"
  by (simp add: handleNewCardRequest_def Let_def)


lemma request_keeps [simp]:
  "flashcards (handleNewCardRequest s) = flashcards s"
  "currentIndex (handleNewCardRequest s) = currentIndex s"
  "bookContent (handleNewCardRequest s) = bookContent s"
  by (simp_all add: handleNewCardRequest_def Let_def split: option.splits)

lemma effects_keeps [simp]:
  "flashcards (effects s) = flashcards s"
  "currentIndex (effects s) = currentIndex s"
  "bookContent (effects s) = bookContent s"
  by (simp_all add: effects_def app_effect_def deck_effect_def)

text \<open>
  Claim C5. Every invocation of \<open>handleNewCardRequest\<close> that issues a request ends with
  \<open>isLoading\<close> cleared, however its promise settles and however many swipes \<open>k\<close> happen
  while it is in flight: on a complete response exactly one card is appended and \<open>error\<close>
  is null; on a rejection (missing key, transport error, unparsable response) or an
  incomplete response, \<open>error\<close> is set to the message, no card is appended, and the cards
  and the cursor are as they were. The promise is settled by the environment: the
  statement covers every outcome it can deliver. A request that an effect issues
  afterwards is another invocation.
\<close>

theorem request_settles_idle:
  assumes "bookContent s = Some book" "book \<noteq> []" "\<not> isLoading s" "inFlight s = []"
  shows "(let s' = handleNewCardRequest_resume outcome uuid
                     ((handleSwipe ^^ k) (handleNewCardRequest s)) in
     isLoading s' = False \<and> inFlight s' = [] \<and> currentIndex s' = currentIndex s + k
     \<and> (case settled outcome of
          Inr v \<Rightarrow>
            if isComplete v
            then flashcards s' = flashcards s @ [newFlashcard uuid (the v)] \<and> error s' = None
            else flashcards s' = flashcards s
                 \<and> error s' = Some ''AI failed to generate a complete flashcard. Please try again.''
        | Inl msg \<Rightarrow> flashcards s' = flashcards s \<and> error s' = Some msg))"
  using assms
  by (simp add: request_issued handleSwipe_funpow handleNewCardRequest_resume_def Let_def
        split: sum.splits)

theorem request_settles_idle_witness:
  "isLoading (handleNewCardRequest_resume (Thrown ''Failed to fetch'') ''u1''
       ((handleSwipe ^^ 2) (handleNewCardRequest docA_idle))) = False
   \<and> error (handleNewCardRequest_resume (Thrown ''Failed to fetch'') ''u1''
       ((handleSwipe ^^ 2) (handleNewCardRequest docA_idle))) = Some ''Failed to fetch''
   \<and> flashcards (handleNewCardRequest_resume (Thrown ''Failed to fetch'') ''u1''
       ((handleSwipe ^^ 2) (handleNewCardRequest docA_idle))) = []
   \<and> isLoading (handleNewCardRequest_resume (Parsed (Some response_T1)) ''u1''
       ((handleSwipe ^^ 0) (handleNewCardRequest docA_idle))) = False
   \<and> error (handleNewCardRequest_resume (Parsed (Some response_T1)) ''u1''
       ((handleSwipe ^^ 0) (handleNewCardRequest docA_idle))) = None
   \<and> flashcards (handleNewCardRequest_resume (Parsed (Some response_T1)) ''u1''
       ((handleSwipe ^^ 0) (handleNewCardRequest docA_idle))) = [card_T1 ''u1'']"
  using request_settles_idle [of docA_idle "''Doc A''" "Thrown ''Failed to fetch''" "''u1''" 2]
    request_settles_idle [of docA_idle "''Doc A''" "Parsed (Some response_T1)" "''u1''" 0]
  by (simp add: docA_idle_def settled_def Let_def isComplete_def truthy_def
        response_T1_def newFlashcard_def card_T1_def)

subsection \<open>Request dedup\<close>













subsection \<open>Append-only deck, monotone cursor\<close>

lemma step_flashcards: "in_session e \<Longrightarrow> prefix (flashcards s) (flashcards (step e s))"
  by (cases e)
     (auto simp: step_def handleSwipe_def handleReset_def handleNewCardRequest_resume_def
           split: list.splits sum.splits)

lemma step_currentIndex:
  "in_session e \<Longrightarrow> currentIndex (step e s) = currentIndex s + (if e = Swipe then 1 else 0)"
  by (cases e)
     (auto simp: step_def handleSwipe_def handleReset_def handleNewCardRequest_resume_def
           split: list.splits sum.splits)

lemma run_flashcards: "list_all in_session es \<Longrightarrow> prefix (flashcards s) (flashcards (run es s))"
proof (induction es arbitrary: s)
  case Nil
  show ?case by simp
next
  case (Cons e es)
  then have "prefix (flashcards s) (flashcards (step e s))"
    and "prefix (flashcards (step e s)) (flashcards (run es (step e s)))"
    by (simp_all add: step_flashcards)
  then show ?case by (auto intro: prefix_order.trans)
qed

lemma run_currentIndex:
  "list_all in_session es \<Longrightarrow> currentIndex (run es s) = currentIndex s + count_list es Swipe"
  by (induction es arbitrary: s) (simp_all add: step_currentIndex)

text \<open>
  Claim C7. For every sequence \<open>es\<close> of events of one session (swipes, triggers of a
  request, settled requests, effects after each), from any state \<open>s\<close>: the cards of \<open>s\<close>
  are a prefix of the cards afterwards, so the length never decreases and every entry
  already inserted is the same record, with its id, title and content; the cursor is the
  old cursor plus the number of swipes, so it never decreases and one swipe adds
  exactly 1.
\<close>

theorem deck_append_only_cursor_monotone:
  assumes "list_all in_session es"
  shows "prefix (flashcards s) (flashcards (run es s))
     \<and> length (flashcards s) \<le> length (flashcards (run es s))
     \<and> (\<forall>i < length (flashcards s). flashcards (run es s) ! i = flashcards s ! i)
     \<and> currentIndex (run es s) = currentIndex s + count_list es Swipe
     \<and> currentIndex s \<le> currentIndex (run es s)
     \<and> currentIndex (step Swipe s) = currentIndex s + 1"
proof -
  have p: "prefix (flashcards s) (flashcards (run es s))"
    using assms by (rule run_flashcards)
  then obtain zs where z: "flashcards (run es s) = flashcards s @ zs"
    by (auto simp: prefix_def)
  have c: "currentIndex (run es s) = currentIndex s + count_list es Swipe"
    using assms by (rule run_currentIndex)
  show ?thesis
    using p c by (simp add: z nth_append step_currentIndex)
qed

theorem deck_append_only_cursor_monotone_witness:
  "flashcards (run [Swipe, Settle (Parsed (Some response_playful)) ''u2'', Swipe]
       (docA_idle\<lparr> flashcards := [card_T1 ''u1''] \<rparr>))
     = [card_T1 ''u1'', card_playful ''u2'']
   \<and> currentIndex (run [Swipe, Settle (Parsed (Some response_playful)) ''u2'', Swipe]
       (docA_idle\<lparr> flashcards := [card_T1 ''u1''] \<rparr>)) = 2
   \<and> prefix [card_T1 ''u1'']
       (flashcards (run [Swipe, Settle (Parsed (Some response_playful)) ''u2'', Swipe]
         (docA_idle\<lparr> flashcards := [card_T1 ''u1''] \<rparr>)))"
  using deck_append_only_cursor_monotone
    [of "[Swipe, Settle (Parsed (Some response_playful)) ''u2'', Swipe]"
        "docA_idle\<lparr> flashcards := [card_T1 ''u1''] \<rparr>"]
  by (simp add: docA_idle_def step_def effects_def app_effect_def deck_effect_def truthy_def
        handleSwipe_def handleNewCardRequest_def handleNewCardRequest_resume_def
        settled_def isComplete_def newFlashcard_def response_playful_def
        card_playful_def Let_def)

subsection \<open>What enters the deck\<close>

lemma isComplete_iff:
  "isComplete v =
     (\<exists>t c g m i. v = Some \<lparr> title_r = Some t, content_r = Some c, category_r = Some g,
                              mood_r = Some m, icon_r = Some i \<rparr>
        \<and> t \<noteq> [] \<and> c \<noteq> [] \<and> g \<noteq> [] \<and> m \<noteq> [] \<and> i \<noteq> [])"
proof (cases v)
  case None
  then show ?thesis by (simp add: isComplete_def)
next
  case (Some d)
  obtain t c g m i
    where d: "d = \<lparr> title_r = t, content_r = c, category_r = g, mood_r = m, icon_r = i \<rparr>"
    by (cases d) simp
  show ?thesis
    unfolding Some d
    by (cases t; cases c; cases g; cases m; cases i) (simp_all add: isComplete_def truthy_def)
qed

text \<open>
  Claim C1, amended. When the response of the generator is null, or any of its five
  fields (title, content, category, mood, icon) is missing or the empty string, the
  settled request sets the error of an incomplete result and appends no card. A response
  with the five fields present and non-empty is appended as a card whatever its mood
  \<open>m\<close>: the code never tests the mood against the enumeration, so a response with mood
  \<open>playful\<close> is appended too.
\<close>

theorem incomplete_response_rejected:
  assumes "inFlight s = call # rest"
  shows "(\<not> isComplete v \<longrightarrow>
            flashcards (handleNewCardRequest_resume (Parsed v) uuid s) = flashcards s
          \<and> error (handleNewCardRequest_resume (Parsed v) uuid s)
              = Some ''AI failed to generate a complete flashcard. Please try again.'')
       \<and> (t \<noteq> [] \<and> c \<noteq> [] \<and> g \<noteq> [] \<and> m \<noteq> [] \<and> i \<noteq> [] \<longrightarrow>
            flashcards (handleNewCardRequest_resume
               (Parsed (Some \<lparr> title_r = Some t, content_r = Some c, category_r = Some g,
                                mood_r = Some m, icon_r = Some i \<rparr>)) uuid s)
              = flashcards s @ [\<lparr> id_card = uuid, title = t, content = c, category = g,
                                  mood = m, icon = i \<rparr>])
       \<and> isComplete v =
           (\<exists>t c g m i. v = Some \<lparr> title_r = Some t, content_r = Some c, category_r = Some g,
                                    mood_r = Some m, icon_r = Some i \<rparr>
              \<and> t \<noteq> [] \<and> c \<noteq> [] \<and> g \<noteq> [] \<and> m \<noteq> [] \<and> i \<noteq> [])"
proof (intro conjI impI)
  assume "\<not> isComplete v"
  then show "flashcards (handleNewCardRequest_resume (Parsed v) uuid s) = flashcards s"
    and "error (handleNewCardRequest_resume (Parsed v) uuid s)
              = Some ''AI failed to generate a complete flashcard. Please try again.''"
    using assms by (simp_all add: handleNewCardRequest_resume_def settled_def)
next
  assume "t \<noteq> [] \<and> c \<noteq> [] \<and> g \<noteq> [] \<and> m \<noteq> [] \<and> i \<noteq> []"
  then show "flashcards (handleNewCardRequest_resume
               (Parsed (Some \<lparr> title_r = Some t, content_r = Some c, category_r = Some g,
                                mood_r = Some m, icon_r = Some i \<rparr>)) uuid s)
              = flashcards s @ [\<lparr> id_card = uuid, title = t, content = c, category = g,
                                  mood = m, icon = i \<rparr>]"
    using assms
    by (simp add: handleNewCardRequest_resume_def settled_def isComplete_def truthy_def
          newFlashcard_def)
next
  show "isComplete v =
           (\<exists>t c g m i. v = Some \<lparr> title_r = Some t, content_r = Some c, category_r = Some g,
                                    mood_r = Some m, icon_r = Some i \<rparr>
              \<and> t \<noteq> [] \<and> c \<noteq> [] \<and> g \<noteq> [] \<and> m \<noteq> [] \<and> i \<noteq> [])"
    by (rule isComplete_iff)
qed

theorem incomplete_response_rejected_witness:
  "flashcards (handleNewCardRequest_resume (Parsed (Some response_no_icon)) ''u3''
       (handleNewCardRequest docA_idle)) = []
   \<and> error (handleNewCardRequest_resume (Parsed (Some response_no_icon)) ''u3''
       (handleNewCardRequest docA_idle))
     = Some ''AI failed to generate a complete flashcard. Please try again.''
   \<and> flashcards (handleNewCardRequest_resume (Parsed (Some response_T1)) ''u1''
       (handleNewCardRequest docA_idle)) = [card_T1 ''u1'']"
  using incomplete_response_rejected
    [of "handleNewCardRequest docA_idle" "call_docA []" "[]" "Some response_no_icon" "''u3''"
        "''T1''" "''First concept.''" "''Science''" "''calm''" "''*''"]
    incomplete_response_rejected
    [of "handleNewCardRequest docA_idle" "call_docA []" "[]" "Some response_T1" "''u1''"
        "''T1''" "''First concept.''" "''Science''" "''calm''" "''*''"]
  by (simp add: docA_idle_def call_docA_def handleNewCardRequest_def Let_def isComplete_def
        truthy_def response_no_icon_def response_T1_def card_T1_def)

text \<open>
  The claim as the specification states it fails: the document \<open>Doc A\<close> is mounted, its
  first request is in flight, and the response has the five fields with mood \<open>playful\<close>,
  which is not one of the six moods. The card is appended.
\<close>

theorem playful_mood_card_appended:
  "''playful'' \<notin> set moodEnumeration
   \<and> flashcards (run [Settle (Parsed (Some response_playful)) ''u1''] (mount (Some ''Doc A'') []))
     = [card_playful ''u1'']"
  by (simp add: moodEnumeration_def mount_def effects_def app_effect_def deck_effect_def
        step_def truthy_def handleNewCardRequest_def handleNewCardRequest_resume_def
        settled_def isComplete_def newFlashcard_def response_playful_def
        card_playful_def Let_def)

subsection \<open>A reset while a request is in flight\<close>

text \<open>
  Claim C2, amended. When \<open>handleReset\<close> is confirmed while a request is in flight and
  that request later resolves with a complete response, the response is not discarded:
  no request carries a token of its document, and the card is appended to the cleared
  list, which then holds exactly that card although no document is loaded.
\<close>

theorem response_after_reset_appended:
  assumes "inFlight s = [call]" "isLoading s" "isComplete v"
  shows "(let s' = run [ClickReset True, Settle (Parsed v) uuid] s in
           flashcards s' = [newFlashcard uuid (the v)] \<and> bookContent s' = None
           \<and> isLoading s' = False \<and> inFlight s' = [])"
  using assms
  by (simp add: step_def handleReset_def handleNewCardRequest_resume_def settled_def
        effects_def app_effect_def deck_effect_def truthy_def Let_def)

theorem response_after_reset_appended_witness:
  "inFlight (handleNewCardRequest docA_idle) = [call_docA []]
   \<and> isLoading (handleNewCardRequest docA_idle)
   \<and> isComplete (Some response_T1)
   \<and> flashcards (run [ClickReset True, Settle (Parsed (Some response_T1)) ''u1'']
        (handleNewCardRequest docA_idle)) = [card_T1 ''u1'']
   \<and> bookContent (run [ClickReset True, Settle (Parsed (Some response_T1)) ''u1'']
        (handleNewCardRequest docA_idle)) = None"
  using response_after_reset_appended
    [of "handleNewCardRequest docA_idle" "call_docA []" "Some response_T1" "''u1''"]
  by (simp add: docA_idle_def call_docA_def handleNewCardRequest_def Let_def isComplete_def
        truthy_def response_T1_def card_T1_def newFlashcard_def)

text \<open>
  The claim as the specification states it fails: \<open>Doc A\<close> is uploaded, its first request
  is issued by the effect, the user confirms a reset, and the request then resolves. The
  card of \<open>Doc A\<close> is in the cleared list.
\<close>

theorem stale_card_in_cleared_deck:
  "flashcards (run [Upload ''Doc A'', ClickReset True, Settle (Parsed (Some response_T1)) ''u1'']
       (mount None []))
     = [card_T1 ''u1'']
   \<and> bookContent (run [Upload ''Doc A'', ClickReset True, Settle (Parsed (Some response_T1)) ''u1'']
       (mount None [])) = None"
  by (simp add: mount_def effects_def app_effect_def deck_effect_def step_def truthy_def
        handleNewCardRequest_def handleNewCardRequest_resume_def settled_def
        handleFileUpload_def handleReset_def isComplete_def newFlashcard_def response_T1_def
        card_T1_def Let_def)

subsection \<open>After a failed request\<close>


subsection \<open>The exclusion list\<close>









subsection \<open>The upload boundary\<close>

lemma split_nonempty: "split sep str \<noteq> []"
  by (induction str) (auto split: list.splits)

lemma split_no_sep: "sep \<notin> set str \<Longrightarrow> split sep str = [str]"
  by (induction str) auto

lemma length_split: "length (split sep str) = Suc (count_list str sep)"
  by (induction str) (auto split: list.splits)

lemma last_split_append:
  "sep \<notin> set ext \<Longrightarrow> last (split sep (base @ sep # ext)) = ext"
proof (induction base)
  case Nil
  then show ?case by (simp add: split_no_sep)
next
  case (Cons a base)
  show ?case
  proof (cases "a = sep")
    case True
    with Cons show ?thesis by (simp add: split_nonempty)
  next
    case False
    obtain w ws where s: "split sep (base @ sep # ext) = w # ws"
      using split_nonempty [of sep "base @ sep # ext"]
      by (cases "split sep (base @ sep # ext)") auto
    have "length (split sep (base @ sep # ext)) \<ge> 2"
      by (simp add: length_split)
    with s have "ws \<noteq> []" by auto
    with Cons False s show ?thesis by simp
  qed
qed

text \<open>
  For a name with a dot, \<open>fileType\<close> is the text after the last dot in lower case; for a
  name without a dot it is the whole name in lower case.
\<close>

lemma fileType_dotted:
  "CHR ''.'' \<notin> set ext \<Longrightarrow> fileType (base @ ''.'' @ ext) = toLowerCase ext"
  by (simp add: fileType_def last_split_append)

lemma fileType_dotless:
  "CHR ''.'' \<notin> set name \<Longrightarrow> fileType name = toLowerCase name"
  by (simp add: fileType_def split_no_sep)

lemma parseFile_unsupported:
  "fileType name \<notin> {''txt'', ''pdf'', ''docx'', ''md''} \<Longrightarrow>
   parseFile pdfjs name = Inl (''Unsupported file type: .'' @ fileType name)"
  by (simp add: parseFile_def Let_def)

lemma parseFile_supported:
  "fileType name = ''txt'' \<Longrightarrow> parseFile pdfjs name = Inr FileText"
  "fileType name = ''pdf'' \<Longrightarrow> parseFile True name = Inr PdfJs"
  "fileType name = ''docx'' \<Longrightarrow> parseFile pdfjs name = Inr Mammoth"
  "fileType name = ''md'' \<Longrightarrow> parseFile pdfjs name = Inr Marked"
  by (simp_all add: parseFile_def Let_def)

lemma parseFile_csv: "parseFile pdfjs ''data.CSV'' = Inl ''Unsupported file type: .csv''"
  by (simp add: parseFile_def fileType_def toLowerCase_def toLowerCase_char_def)

text \<open>
  Claim C9. The claim says that a file whose extension is none of .txt, .pdf, .docx, .md
  is refused before any parsing. A file whose name has no dot has no extension, yet
  \<open>split('.').pop()\<close> returns its whole name: the files named \<open>txt\<close>, \<open>PDF\<close>, \<open>Docx\<close>
  and \<open>md\<close> are handed to the four parsers instead of being refused.
\<close>

theorem dotless_name_dispatched:
  "CHR ''.'' \<notin> set ''txt'' \<and> parseFile True ''txt'' = Inr FileText
   \<and> CHR ''.'' \<notin> set ''PDF'' \<and> parseFile True ''PDF'' = Inr PdfJs
   \<and> CHR ''.'' \<notin> set ''Docx'' \<and> parseFile True ''Docx'' = Inr Mammoth
   \<and> CHR ''.'' \<notin> set ''md'' \<and> parseFile True ''md'' = Inr Marked"
  by (simp add: parseFile_def fileType_def toLowerCase_def toLowerCase_char_def)

subsection \<open>Card styles\<close>

lemma defaultStyle_serious:
  "defaultStyle = Style \<lparr> background = ''bg-gradient-to-br from-slate-700 to-slate-800'',
                          badgeColor = ''bg-slate-400/20 text-slate-200'' \<rparr>"
  by (simp add: defaultStyle_def moodStyles_at_def moodStyles_def)

lemma moodStyles_keys: "map fst moodStyles = moodEnumeration"
  by (simp add: moodStyles_def moodEnumeration_def)

text \<open>
  On the six moods \<open>getDynamicCardStyles\<close> returns the entry of the mood; on
  \<open>undefined\<close>, on the empty string, and on every string that is neither a mood nor a
  name defined by \<open>Object.prototype\<close>, it returns the default, the entry of \<open>serious\<close>.
\<close>

lemma getDynamicCardStyles_enumerated:
  "m \<in> set moodEnumeration \<Longrightarrow>
   map_of moodStyles m \<noteq> None \<and> getDynamicCardStyles (Some m) = Style (the (map_of moodStyles m))"
  by (auto simp: moodEnumeration_def getDynamicCardStyles_def moodStyles_at_def moodStyles_def)

lemma getDynamicCardStyles_default:
  "getDynamicCardStyles None = defaultStyle"
  "getDynamicCardStyles (Some []) = defaultStyle"
  "m \<notin> set moodEnumeration \<Longrightarrow> m \<notin> set objectPrototype \<Longrightarrow>
   getDynamicCardStyles (Some m) = defaultStyle"
    apply (simp_all add: getDynamicCardStyles_def)
  apply (simp add: moodStyles_at_def moodEnumeration_def moodStyles_def)
  done

text \<open>
  Claim C10. The claim says that every input other than the six moods gets the default
  style. The mood \<open>constructor\<close> is not one of the six, but \<open>moodStyles['constructor']\<close>
  reads the property that every object inherits from \<open>Object.prototype\<close>; it is truthy,
  so \<open>getDynamicCardStyles\<close> returns it, and it is not the default style (it is no style
  entry at all, and its \<open>background\<close> and \<open>badgeColor\<close> are undefined).
\<close>

theorem inherited_property_returned:
  "''constructor'' \<notin> set moodEnumeration
   \<and> getDynamicCardStyles (Some ''constructor'') = Inherited ''constructor''
   \<and> getDynamicCardStyles (Some ''constructor'') \<noteq> defaultStyle"
  by (simp add: getDynamicCardStyles_def moodStyles_at_def moodStyles_def objectPrototype_def
        defaultStyle_def moodEnumeration_def)

end
